theory Spec2Isabelle
  imports Main "HOL-Library.Word"
begin

section \<open>Go library operations the proxy code calls\<close>

text \<open>
  Go strings are byte sequences; \<^typ>\<open>string\<close> (a list of 8-bit characters) is the
  same thing.  The functions below are the operations of package \<open>strings\<close> and
  \<open>strconv\<close> that the source calls, written as the Go library computes them.
\<close>

text \<open>\<open>strings.HasPrefix(s, prefix)\<close>:
  \<open>len(s) >= len(prefix) && s[0:len(prefix)] == prefix\<close>.\<close>

definition HasPrefix :: "string \<Rightarrow> string \<Rightarrow> bool" where
  "HasPrefix s pre = (length pre \<le> length s \<and> take (length pre) s = pre)"

text \<open>\<open>strings.TrimPrefix(s, prefix)\<close>.\<close>

definition TrimPrefix :: "string \<Rightarrow> string \<Rightarrow> string" where
  "TrimPrefix s pre = (if HasPrefix s pre then drop (length pre) s else s)"

text \<open>\<open>strings.Index(s, substr)\<close>: the position of the first occurrence of \<open>substr\<close>
  in \<open>s\<close>; Go's \<open>-1\<close> is \<open>None\<close>.\<close>

fun Index :: "string \<Rightarrow> string \<Rightarrow> nat option" where
  "Index [] substr = (if substr = [] then Some 0 else None)"
| "Index (c # cs) substr =
     (if HasPrefix (c # cs) substr then Some 0 else map_option Suc (Index cs substr))"

text \<open>\<open>strings.Contains(s, substr)\<close> is \<open>Index(s, substr) >= 0\<close>.\<close>

definition Contains :: "string \<Rightarrow> string \<Rightarrow> bool" where
  "Contains s substr = (Index s substr \<noteq> None)"

text \<open>
  \<open>strings.Replace(s, old, new, 1)\<close>, the only count the source passes: Go returns \<open>s\<close>
  when \<open>old == new\<close> or when \<open>old\<close> does not occur, and otherwise
  \<open>s[:j] + new + s[j+len(old):]\<close> for the first occurrence \<open>j\<close> (an empty \<open>old\<close> occurs
  at position 0).
\<close>

definition Replace1 :: "string \<Rightarrow> string \<Rightarrow> string \<Rightarrow> string" where
  "Replace1 s old new =
     (if old = new then s
      else case Index s old of
             None \<Rightarrow> s
           | Some j \<Rightarrow> take j s @ new @ drop (j + length old) s)"

lemma Index_Nil_Some: "Index [] sep = Some m \<Longrightarrow> sep = []"
  by (simp split: if_splits)

text \<open>
  \<open>strings.Split(s, sep)\<close> for a non-empty separator, as Go's \<open>genSplit\<close> loop: cut at
  the first occurrence of \<open>sep\<close>, continue behind it, and end with the rest.  The source
  only splits at \<open>"/"\<close>; for the empty separator Go cuts after every UTF-8 sequence, which
  for the bytes of an ASCII string is after every byte.
\<close>

function Split :: "string \<Rightarrow> string \<Rightarrow> string list" where
  "Split s sep =
     (if sep = [] then map (\<lambda>c. [c]) s
      else case Index s sep of
             None \<Rightarrow> [s]
           | Some m \<Rightarrow> take m s # Split (drop (m + length sep) s) sep)"
  by pat_completeness auto
termination
proof (relation "measure (\<lambda>(s, sep). length s)")
  show "wf (measure (\<lambda>(s, sep). length s))" by simp
next
  fix s sep :: string and m :: nat
  assume sep: "sep \<noteq> []" and idx: "Index s sep = Some m"
  from sep idx have "s \<noteq> []" using Index_Nil_Some by blast
  with sep show "((drop (m + length sep) s, sep), (s, sep)) \<in> measure (\<lambda>(s, sep). length s)"
    by simp
qed

declare Split.simps [simp del]

text \<open>\<open>strconv.Itoa\<close>: the decimal digits of an integer, with a minus sign in front of a
  negative one.\<close>

fun digitsOf :: "nat \<Rightarrow> string" where
  "digitsOf n =
     (if n < 10 then [''0123456789'' ! n]
      else digitsOf (n div 10) @ [''0123456789'' ! (n mod 10)])"

declare digitsOf.simps [simp del]

definition Itoa :: "int \<Rightarrow> string" where
  "Itoa i = (if i < 0 then CHR ''-'' # digitsOf (nat (- i)) else digitsOf (nat i))"

section \<open>Tenant records\<close>

text \<open>
  \<open>models.Environment\<close> and \<open>models.Api\<close> are declared in another repository; the
  records below hold the fields the proxy code reads (\<open>Id_env\<close> and \<open>Id_api\<close> are
  the fields \<open>Id\<close> of the two structs).  Go's zero value of a struct has every string
  empty and every flag false.
\<close>

record Environment =
  Id_env :: string
  Slug :: string
  Url :: string
  Ssl :: bool
  ApiId :: string
  ProjectId :: string
  Running :: bool

record Api =
  Id_api :: string

definition zeroApi :: Api where
  "zeroApi = \<lparr>Id_api = []\<rparr>"

definition zeroEnvironment :: Environment where
  "zeroEnvironment =
     \<lparr>Id_env = [], Slug = [], Url = [], Ssl = False, ApiId = [], ProjectId = [], Running = False\<rparr>"

section \<open>helpers.go: the path without the environment\<close>

text \<open>
  \<open>urlWithoutEnvironment(env, url)\<close>: the first occurrence of the slug is cut out of the
  path; then, when the second byte of what is left is a slash, a leading slash is
  trimmed, and when nothing is left the path is \<open>"/"\<close>.
\<close>

definition urlWithoutEnvironment :: "Environment \<Rightarrow> string \<Rightarrow> string" where
  "urlWithoutEnvironment env url =
     (let newUrl = Replace1 url (Slug env) [] in
      if 1 < length newUrl \<and> newUrl ! 1 = CHR ''/'' then TrimPrefix newUrl ''/''
      else if length newUrl = 0 then ''/''
      else newUrl)"

section \<open>request.go: the slug of a request URI\<close>

text \<open>A Go run-time panic: an index out of range, or a nil pointer dereference.\<close>

datatype panic = IndexOutOfRange | NilDereference

text \<open>
  \<open>slugFromUrl(url)\<close> splits the URI at \<open>"/"\<close> and reads its first byte, \<open>url[0]\<close>, with
  no check of the length; every index expression of the source is a branch here.
\<close>

definition slugFromUrl :: "string \<Rightarrow> panic + string" where
  "slugFromUrl url =
     (let parts = Split url ''/'' in
      case url of
        [] \<Rightarrow> Inl IndexOutOfRange
      | c # _ \<Rightarrow>
          if c = CHR ''/''
          then (if 1 < length parts then Inr (parts ! 1) else Inl IndexOutOfRange)
          else (if 0 < length parts then Inr (parts ! 0) else Inl IndexOutOfRange))"

section \<open>HTTP messages\<close>

text \<open>
  \<open>http.Header\<close> maps a header name to its values.  \<open>Get\<close> returns the first value of
  a name or the empty string, \<open>Set\<close> replaces the values by one, \<open>Del\<close> removes the
  name.  Go compares names in their canonical spelling; here a name is the string the
  source writes, the same at every use.
\<close>

type_synonym Header = "string \<rightharpoonup> string list"

definition Header_Get :: "Header \<Rightarrow> string \<Rightarrow> string" where
  "Header_Get h key =
     (case h key of None \<Rightarrow> [] | Some vs \<Rightarrow> (case vs of [] \<Rightarrow> [] | v # _ \<Rightarrow> v))"

definition Header_Set :: "Header \<Rightarrow> string \<Rightarrow> string \<Rightarrow> Header" where
  "Header_Set h key v = h(key \<mapsto> [v])"

definition Header_Del :: "Header \<Rightarrow> string \<Rightarrow> Header" where
  "Header_Del h key = h(key := None)"

text \<open>
  An \<open>io.ReadCloser\<close> is the bytes it yields and the error that ends the reading, if
  any; \<open>ioutil.ReadAll\<close> returns both.
\<close>

type_synonym Reader = "string \<times> string option"

definition ReadAll :: "Reader \<Rightarrow> string \<times> string option" where
  "ReadAll b = b"

definition NopCloser :: "string \<Rightarrow> Reader" where
  "NopCloser bytes = (bytes, None)"

record URL =
  Scheme :: string
  Host :: string
  Path :: string
  RawQuery :: string

text \<open>
  \<open>URL.RequestURI()\<close>: the path, or \<open>"/"\<close> when the path is empty, followed by \<open>"?"\<close>
  and the query when there is one (percent-escaping and opaque URLs are left out).
\<close>

definition RequestURI :: "URL \<Rightarrow> string" where
  "RequestURI u =
     (let result = (if Path u = [] then ''/'' else Path u)
      in if RawQuery u \<noteq> [] then result @ ''?'' @ RawQuery u else result)"

record Request =
  Method :: string
  URL :: URL
  Header :: Header
  RemoteAddr :: string
  Body :: Reader

record Response =
  StatusCode :: int
  Header_resp :: Header
  Body_resp :: Reader

text \<open>
  Modelled from the spec: \<open>goproxy.NewResponse\<close> and \<open>goproxy.ContentTypeText\<close> belong to
  the proxy engine, which is not among the source files.  The spec has them produce the
  synthetic response of a preflight (status 200) and the placeholder of an absent
  response (status 503): a response with the given status, content type and body.
\<close>

definition ContentTypeText :: string where
  "ContentTypeText = ''text/plain''"

definition NewResponse :: "Request \<Rightarrow> string \<Rightarrow> int \<Rightarrow> string \<Rightarrow> Response" where
  "NewResponse r contentType status body =
     \<lparr>StatusCode = status,
      Header_resp = Map.empty(''Content-Type'' \<mapsto> [contentType]),
      Body_resp = NopCloser body\<rparr>"

section \<open>request.go: the request context\<close>

text \<open>
  The store behind \<open>dbConnection\<close>: its tables in primary-key order.  A query
  \<open>Where(...).First(&x)\<close> yields the first row that matches and leaves \<open>x\<close> at its zero
  value when none does.
\<close>

record DB =
  environments :: "Environment list"
  apis :: "Api list"

text \<open>
  \<open>BaseRequest\<close>, with the fields the pipeline reads: the request, the snapshot of its
  headers, the session id, the body, the skip flag and the two resolved records
  (\<open>env_ptr\<close> and \<open>api_ptr\<close> are the pointer fields \<open>env\<close> and \<open>api\<close>; \<open>None\<close> is
  \<open>nil\<close>).  The attempt log and the user-data bag are not read by any function below.
\<close>

record BaseRequest =
  HttpRequest :: Request
  ReqHeaders :: Header
  Id_req :: "64 word"
  Body_req :: string
  Skip :: bool
  env_ptr :: "Environment option"
  api_ptr :: "Api option"

text \<open>
  What a function leaves outside its results: a line of the process log, a record handed
  to the store, an event handed to the socket hub.  \<open>models.NewRequest\<close> builds the
  capture record from its arguments.
\<close>

record StopLightRequest =
  sl_api :: Api
  sl_env :: Environment
  sl_request :: Request
  sl_body :: string
  sl_response :: Response
  sl_respBody :: string

definition NewRequest ::
  "Api \<Rightarrow> Environment \<Rightarrow> Request \<Rightarrow> string \<Rightarrow> Response \<Rightarrow> string \<Rightarrow> StopLightRequest" where
  "NewRequest a e r body resp respBody =
     \<lparr>sl_api = a, sl_env = e, sl_request = r, sl_body = body,
      sl_response = resp, sl_respBody = respBody\<rparr>"

datatype effect =
  Log string
| Create StopLightRequest
| BroadcastEvent string string StopLightRequest

text \<open>
  \<open>NewBaseRequest(r, id)\<close>: the headers are copied, the body is read (a read error is
  logged) and put back, the skip flag is false and no record is resolved yet.
\<close>

definition NewBaseRequest :: "Request \<Rightarrow> 64 word \<Rightarrow> BaseRequest \<times> effect list" where
  "NewBaseRequest r ident =
     (case ReadAll (Body r) of
        (reqBody, err) \<Rightarrow>
          (\<lparr>HttpRequest = r\<lparr>Body := NopCloser reqBody\<rparr>,
            ReqHeaders = Header r,
            Id_req = ident,
            Body_req = reqBody,
            Skip = False,
            env_ptr = None,
            api_ptr = None\<rparr>,
           (case err of None \<Rightarrow> [] | Some e \<Rightarrow> [Log e])))"

text \<open>
  The two look-ups of an environment: by the slug of the request URI, and by the host of
  the request URL, each among the running environments.  A panic of \<open>slugFromUrl\<close> is
  a panic of the look-up.
\<close>

definition requestEnvFromPath :: "DB \<Rightarrow> BaseRequest \<Rightarrow> panic + Environment" where
  "requestEnvFromPath db br =
     (case slugFromUrl (RequestURI (URL (HttpRequest br))) of
        Inl p \<Rightarrow> Inl p
      | Inr identifier \<Rightarrow>
          Inr (case find (\<lambda>e. Slug e = identifier \<and> Running e) (environments db) of
                 None \<Rightarrow> zeroEnvironment
               | Some e \<Rightarrow> e))"

definition requestEnvFromHost :: "DB \<Rightarrow> BaseRequest \<Rightarrow> Environment" where
  "requestEnvFromHost db br =
     (let identifier = Host (URL (HttpRequest br))
      in case find (\<lambda>e. Url e = identifier \<and> Running e) (environments db) of
           None \<Rightarrow> zeroEnvironment
         | Some e \<Rightarrow> e)"

text \<open>
  \<open>GetEnvironment\<close>, \<open>GetApi\<close> and \<open>GetOrigin\<close> have a pointer receiver; each returns,
  beside its result, the receiver as the call leaves it.  \<open>GetEnvironment\<close> returns the
  stored record when \<open>env\<close> is not nil; otherwise it looks the environment up by path
  and, when that has no id, by host, and returns the address of the local variable.
\<close>

definition GetEnvironment :: "DB \<Rightarrow> BaseRequest \<Rightarrow> panic + (Environment \<times> BaseRequest)" where
  "GetEnvironment db br =
     (case env_ptr br of
        Some e \<Rightarrow> Inr (e, br)
      | None \<Rightarrow>
          (case requestEnvFromPath db br of
             Inl p \<Rightarrow> Inl p
           | Inr e \<Rightarrow> Inr (if Id_env e = [] then requestEnvFromHost db br else e, br)))"

text \<open>
  \<open>GetOrigin\<close>: the override header of the snapshot first, then the environment, then
  the URL of the request itself.  \<open>Parse\<close> is \<open>url.Parse\<close>, whose error the source
  drops: \<open>None\<close> is the nil URL it returns with an error.
\<close>

definition GetOrigin ::
  "(string \<Rightarrow> URL option) \<Rightarrow> DB \<Rightarrow> BaseRequest \<Rightarrow> panic + (URL option \<times> BaseRequest)" where
  "GetOrigin Parse db br =
     (let targetUrl = Header_Get (ReqHeaders br) ''X-StopLight-Url-Host'' in
      if targetUrl = [] then
        (case GetEnvironment db br of
           Inl p \<Rightarrow> Inl p
         | Inr (e, br1) \<Rightarrow>
             if Slug e = [] then Inr (Some (URL (HttpRequest br1)), br1)
             else if Ssl e then Inr (Parse (''https://'' @ Url e), br1)
             else Inr (Parse (''http://'' @ Url e), br1))
      else Inr (Parse targetUrl, br))"

text \<open>
  \<open>GetApi\<close> is the method that helpers.go calls; it stands in the revision of the
  request package that still has it.  The API is the one the environment is bound to,
  else the one the \<open>X-StopLight-Api\<close> header names; the table \<open>apis\<close> stands for the
  look-up by id (through the process-wide cache to the store).
\<close>

definition GetApi :: "DB \<Rightarrow> BaseRequest \<Rightarrow> panic + (Api \<times> BaseRequest)" where
  "GetApi db br =
     (case api_ptr br of
        Some a \<Rightarrow> Inr (a, br)
      | None \<Rightarrow>
          (case GetEnvironment db br of
             Inl p \<Rightarrow> Inl p
           | Inr (e, br1) \<Rightarrow>
               (let identifier =
                      (if ApiId e \<noteq> [] then ApiId e
                       else Header_Get (Header (HttpRequest br1)) ''X-StopLight-Api'')
                in if identifier \<noteq> [] then
                     Inr (case find (\<lambda>a. Id_api a = identifier) (apis db) of
                            None \<Rightarrow> zeroApi
                          | Some a \<Rightarrow> a, br1)
                   else Inr (zeroApi, br1))))"

definition GetBody :: "BaseRequest \<Rightarrow> string" where
  "GetBody br = Body_req br"

section \<open>helpers.go: the pipeline stages\<close>

text \<open>
  \<open>requestData\<close> is the package-level map from the session id to the request context;
  each stage takes it as an argument and returns it when the stage, or a method it calls
  on an entry, may change it.  \<open>ProxyCtx\<close> carries the session id and the request the
  engine works on.  A stage that dereferences a nil entry panics.
\<close>

type_synonym RequestData = "64 word \<rightharpoonup> BaseRequest"

record ProxyCtx =
  Session :: "64 word"
  Req :: Request

definition allowedCorsMethods :: string where
  "allowedCorsMethods =
     ''GET,POST,PUT,PATCH,DELETE,COPY,HEAD,OPTIONS,LINK,UNLINK,PURGE,LOCK,UNLOCK,PROPFIND''"

definition SetupRequest ::
  "RequestData \<Rightarrow> Request \<Rightarrow> ProxyCtx
     \<Rightarrow> (Request \<times> Response option) \<times> RequestData \<times> effect list" where
  "SetupRequest requestData r ctx =
     (case NewBaseRequest r (Session ctx) of
        (baseReq, logs) \<Rightarrow>
          ((HttpRequest baseReq, None), requestData(Session ctx \<mapsto> baseReq), logs))"

definition PreflightCorsSupport ::
  "DB \<Rightarrow> RequestData \<Rightarrow> Request \<Rightarrow> ProxyCtx
     \<Rightarrow> panic + ((Request \<times> Response option) \<times> RequestData)" where
  "PreflightCorsSupport db requestData r ctx =
     (if Method r = ''OPTIONS'' then
        (let resp = NewResponse r ContentTypeText 200 [];
             h1 = Header_Set (Header_resp resp) ''Access-Control-Allow-Credentials'' ''true'';
             h2 = Header_Set h1 ''Access-Control-Allow-Headers''
                    (Header_Get (Header r) ''Access-Control-Request-Headers'');
             h3 = Header_Set h2 ''Access-Control-Allow-Methods'' allowedCorsMethods;
             h4 = Header_Set h3 ''Access-Control-Allow-Origin'' ''*'';
             h5 = Header_Set h4 ''Access-Control-Expose-Headers'' ''Content-Length''
         in case requestData (Session ctx) of
              None \<Rightarrow> Inl NilDereference
            | Some data \<Rightarrow>
                Inr ((r, Some (resp\<lparr>Header_resp := h5\<rparr>)),
                     requestData(Session ctx \<mapsto> data\<lparr>Skip := True\<rparr>)))
      else
        (case requestData (Session ctx) of
           None \<Rightarrow> Inl NilDereference
         | Some data \<Rightarrow>
             (case GetEnvironment db data of
                Inl p \<Rightarrow> Inl p
              | Inr (e, data1) \<Rightarrow>
                  if Slug e = [] then Inr ((r, None), requestData(Session ctx \<mapsto> data1))
                  else
                    (let h1 = Header_Set (Header r) ''Access-Control-Allow-Credentials'' ''true'';
                         h2 = Header_Set h1 ''Access-Control-Allow-Headers''
                                (Header_Get (Header r) ''Access-Control-Request-Headers'');
                         h3 = Header_Set h2 ''Access-Control-Allow-Methods'' allowedCorsMethods;
                         h4 = Header_Set h3 ''Access-Control-Allow-Origin'' ''*'';
                         h5 = Header_Set h4 ''Access-Control-Expose-Headers'' ''Content-Length''
                     in Inr ((r\<lparr>Header := h5\<rparr>, None),
                             requestData(Session ctx \<mapsto> data1))))))"

text \<open>
  \<open>PostflightCorsSupport\<close> returns the response as it is when there is no response, no
  context or no environment; otherwise it sets four CORS headers of the response.
\<close>

definition PostflightCorsSupport ::
  "DB \<Rightarrow> RequestData \<Rightarrow> Response option \<Rightarrow> ProxyCtx
     \<Rightarrow> panic + (Response option \<times> RequestData)" where
  "PostflightCorsSupport db requestData resp ctx =
     (case resp of
        None \<Rightarrow> Inr (resp, requestData)
      | Some rsp \<Rightarrow>
          (case requestData (Session ctx) of
             None \<Rightarrow> Inr (resp, requestData)
           | Some data \<Rightarrow>
               (case GetEnvironment db data of
                  Inl p \<Rightarrow> Inl p
                | Inr (e, data1) \<Rightarrow>
                    if Slug e = [] then Inr (resp, requestData(Session ctx \<mapsto> data1))
                    else
                      (let h1 = Header_Set (Header_resp rsp)
                                  ''Access-Control-Allow-Credentials'' ''true'';
                           h2 = Header_Set h1 ''Access-Control-Allow-Headers''
                                  (Header_Get (Header (Req ctx))
                                     ''Access-Control-Request-Headers'');
                           h3 = Header_Set h2 ''Access-Control-Allow-Methods''
                                  allowedCorsMethods;
                           h4 = Header_Set h3 ''Access-Control-Allow-Origin'' ''*''
                       in Inr (Some (rsp\<lparr>Header_resp := h4\<rparr>),
                               requestData(Session ctx \<mapsto> data1))))))"

text \<open>
  \<open>SetupResponse\<close> returns the response as it is when there is no response, no context
  or the skip flag is set; otherwise it extends \<open>X-Forwarded-For\<close> by the remote address
  and sets the marker header.
\<close>

definition SetupResponse :: "RequestData \<Rightarrow> Response option \<Rightarrow> ProxyCtx \<Rightarrow> Response option" where
  "SetupResponse requestData resp ctx =
     (case resp of
        None \<Rightarrow> resp
      | Some rsp \<Rightarrow>
          (case requestData (Session ctx) of
             None \<Rightarrow> resp
           | Some data \<Rightarrow>
               if Skip data then resp
               else
                 (let xff0 = Header_Get (Header_resp rsp) ''X-Forwarded-For'';
                      xff = (if xff0 \<noteq> [] then xff0 @ '', '' @ RemoteAddr (Req ctx)
                             else RemoteAddr (Req ctx));
                      h1 = Header_Set (Header_resp rsp) ''X-Forwarded-For'' xff;
                      h2 = Header_Set h1 ''X-StopLight-Request'' ''true''
                  in Some (rsp\<lparr>Header_resp := h2\<rparr>))))"

text \<open>
  \<open>isValidResponse(req, resp)\<close> of helpers.go: never with the ignore header; always
  without a response; otherwise when one of the listed conditions holds.  The first byte
  of \<open>strconv.Itoa(resp.StatusCode)\<close> exists, since the digits of a number are never
  empty.
\<close>

definition isValidResponse :: "Request \<Rightarrow> Response option \<Rightarrow> bool" where
  "isValidResponse req resp =
     (if Header_Get (Header req) ''X-StopLight-Ignore'' = ''true'' then False
      else case resp of
             None \<Rightarrow> True
           | Some rsp \<Rightarrow>
               (let isAjax = Header_Get (Header req) ''X-Requested-With'';
                    contentType = Header_Get (Header_resp rsp) ''Content-Type'';
                    isGet = (Method req = ''GET'');
                    isStopLightRequest = Header_Get (Header req) ''X-StopLight-Api'';
                    validStatusCode =
                      (StatusCode rsp = 304 \<or> take 1 (Itoa (StatusCode rsp)) = ''2'')
                in isStopLightRequest \<noteq> [] \<or> \<not> isGet \<or> isAjax \<noteq> [] \<or> \<not> validStatusCode
                   \<or> Contains contentType ''json'' \<or> Contains contentType ''xml''))"

text \<open>
  \<open>SaveStopLightRequest\<close>.  Nothing is captured without a context, with the skip flag
  set, or without an API.  For a valid exchange the response body is read (a read error
  is logged) and put back, and a goroutine builds the capture record, hands it to the
  store and, unless the store returns an error, broadcasts \<open>request.create\<close>; the error
  is logged.  \<open>create\<close> is \<open>dbConnection.Create\<close>: the error of the store for a record, or
  none.  The effects of the goroutine are listed in its own order, after those of the
  stage that starts it.
\<close>

definition SaveStopLightRequest ::
  "(StopLightRequest \<Rightarrow> string option) \<Rightarrow> DB \<Rightarrow> RequestData \<Rightarrow> Response option \<Rightarrow> ProxyCtx
     \<Rightarrow> panic + (Response option \<times> RequestData \<times> effect list)" where
  "SaveStopLightRequest create db requestData resp ctx =
     (case requestData (Session ctx) of
        None \<Rightarrow> Inr (resp, requestData, [])
      | Some baseRequest \<Rightarrow>
          if Skip baseRequest then Inr (resp, requestData, [])
          else
            (case GetApi db baseRequest of
               Inl p \<Rightarrow> Inl p
             | Inr (a, br1) \<Rightarrow>
                 if Id_api a = [] then Inr (resp, requestData(Session ctx \<mapsto> br1), [])
                 else
                   (let valid = isValidResponse (HttpRequest br1) resp in
                    case GetEnvironment db br1 of
                      Inl p \<Rightarrow> Inl p
                    | Inr (e, br2) \<Rightarrow>
                        if valid then
                          (let rsp = (case resp of
                                        None \<Rightarrow>
                                          NewResponse (Req ctx) ContentTypeText 503
                                            ''Service not available. Is the server running?''
                                      | Some rsp0 \<Rightarrow> rsp0)
                           in case ReadAll (Body_resp rsp) of
                                (respBody, err) \<Rightarrow>
                                  (let logs = (case err of None \<Rightarrow> [] | Some msg \<Rightarrow> [Log msg]);
                                       rsp1 = rsp\<lparr>Body_resp := NopCloser respBody\<rparr>
                                   in case GetApi db br2 of
                                        Inl p \<Rightarrow> Inl p
                                      | Inr (a1, br3) \<Rightarrow>
                                          (let slrequest =
                                                 NewRequest a1 e (HttpRequest br3) (GetBody br3)
                                                   rsp1 respBody
                                           in Inr (Some rsp1,
                                                   requestData(Session ctx \<mapsto> br3),
                                                   logs @ Create slrequest #
                                                     (case create slrequest of
                                                        Some msg \<Rightarrow> [Log msg]
                                                      | None \<Rightarrow>
                                                          [BroadcastEvent ''request.create''
                                                             ''request'' slrequest])))))
                        else Inr (resp, requestData(Session ctx \<mapsto> br2), []))))"

text \<open>
  \<open>Cleanup\<close> deletes the two control headers of the request and the entry of the
  session; Go's \<open>delete\<close> of a key that is not in the map does nothing.
\<close>

definition Cleanup ::
  "RequestData \<Rightarrow> Response option \<Rightarrow> ProxyCtx \<Rightarrow> Response option \<times> RequestData \<times> ProxyCtx" where
  "Cleanup requestData resp ctx =
     (let h1 = Header_Del (Header (Req ctx)) ''X-StopLight-Url-Host'';
          h2 = Header_Del h1 ''X-StopLight-Api''
      in (resp, requestData(Session ctx := None), ctx\<lparr>Req := (Req ctx)\<lparr>Header := h2\<rparr>\<rparr>))"

section \<open>The relevance decision of the later revision\<close>

text \<open>
  The revision of helpers.go that reads the \<open>Accept\<close> header has \<open>isValidResponse\<close> take
  the request context: no capture without a context, with the skip flag or with the
  ignore header; always for a dashboard request; otherwise only with an API, and then by
  the method, the ajax header, the status and the types named by \<open>Accept\<close> and
  \<open>Content-Type\<close> together.  It logs the ajax header on the way.
\<close>

definition isValidResponse_accept ::
  "DB \<Rightarrow> BaseRequest option \<Rightarrow> Response option
     \<Rightarrow> panic + (bool \<times> BaseRequest option \<times> effect list)" where
  "isValidResponse_accept db baseRequest resp =
     (case baseRequest of
        None \<Rightarrow> Inr (False, None, [])
      | Some br \<Rightarrow>
          if Skip br \<or> Header_Get (Header (HttpRequest br)) ''X-StopLight-Ignore'' = ''true''
          then Inr (False, Some br, [])
          else
            (let isStopLightRequest =
                   Header_Get (Header (HttpRequest br)) ''X-StopLight-Dashboard''
             in case GetApi db br of
                  Inl p \<Rightarrow> Inl p
                | Inr (a, br1) \<Rightarrow>
                    if isStopLightRequest = ''true'' then Inr (True, Some br1, [])
                    else if Id_api a \<noteq> [] then
                      (case resp of
                         None \<Rightarrow> Inr (True, Some br1, [])
                       | Some rsp \<Rightarrow>
                           (let req = HttpRequest br1;
                                isAjax = Header_Get (Header req) ''X-Requested-With'';
                                acceptType = Header_Get (Header req) ''Accept'';
                                contentType = Header_Get (Header_resp rsp) ''Content-Type'';
                                typeString = acceptType @ contentType;
                                isGet = (Method req = ''GET'');
                                validStatusCode =
                                  (StatusCode rsp = 304
                                   \<or> take 1 (Itoa (StatusCode rsp)) = ''2'')
                            in Inr (\<not> isGet \<or> isAjax \<noteq> [] \<or> \<not> validStatusCode
                                    \<or> ((Contains typeString ''json''
                                         \<or> Contains typeString ''xml'')
                                        \<and> \<not> Contains typeString ''html''),
                                    Some br1, [Log isAjax])))
                    else Inr (False, Some br1, [])))"

section \<open>Example data\<close>

text \<open>The environments, requests and contexts at which the theorems below are evaluated.\<close>

definition env_foo :: Environment where
  "env_foo =
     \<lparr>Id_env = ''e1'', Slug = ''foo'', Url = ''api.internal:9000'', Ssl = False,
      ApiId = ''a1'', ProjectId = ''p1'', Running = True\<rparr>"

definition env_api :: Environment where
  "env_api = env_foo\<lparr>Id_env := ''e2'', Slug := ''api''\<rparr>"

definition db_running :: DB where
  "db_running = \<lparr>environments = [env_foo], apis = [\<lparr>Id_api = ''a1''\<rparr>]\<rparr>"

definition db_stopped :: DB where
  "db_stopped =
     \<lparr>environments = [env_foo\<lparr>Running := False\<rparr>], apis = [\<lparr>Id_api = ''a1''\<rparr>]\<rparr>"

definition db_tls :: DB where
  "db_tls = \<lparr>environments = [env_foo\<lparr>Ssl := True\<rparr>], apis = [\<lparr>Id_api = ''a1''\<rparr>]\<rparr>"

definition req_foo_bar :: Request where
  "req_foo_bar =
     \<lparr>Method = ''GET'',
      URL = \<lparr>Scheme = ''http'', Host = ''proxy.local'', Path = ''/foo/bar'', RawQuery = []\<rparr>,
      Header = Map.empty,
      RemoteAddr = ''10.0.0.7:5000'',
      Body = ([], None)\<rparr>"


definition req_ajax :: Request where
  "req_ajax = req_foo_bar\<lparr>Header := Map.empty(''X-Requested-With'' \<mapsto> [''XMLHttpRequest''])\<rparr>"

definition req_accept_json :: Request where
  "req_accept_json = req_foo_bar\<lparr>Header := Map.empty(''Accept'' \<mapsto> [''application/json''])\<rparr>"

definition req_override :: Request where
  "req_override =
     req_foo_bar\<lparr>Header := Map.empty(''X-StopLight-Url-Host'' \<mapsto> [''http://localhost:3000''])\<rparr>"

definition req_options :: Request where
  "req_options =
     req_foo_bar\<lparr>Method := ''OPTIONS'',
                 Header := Map.empty(''Access-Control-Request-Headers'' \<mapsto> [''X-Token''])\<rparr>"

definition resp_html :: Response where
  "resp_html =
     \<lparr>StatusCode = 200,
      Header_resp = Map.empty(''Content-Type'' \<mapsto> [''text/html'']),
      Body_resp = (''<html></html>'', None)\<rparr>"

definition resp_json :: Response where
  "resp_json =
     \<lparr>StatusCode = 200,
      Header_resp = Map.empty(''Content-Type'' \<mapsto> [''application/json'']),
      Body_resp = (''{}'', None)\<rparr>"

definition resp_untyped :: Response where
  "resp_untyped = \<lparr>StatusCode = 200, Header_resp = Map.empty, Body_resp = (''{}'', None)\<rparr>"

text \<open>The response \<open>resp_html\<close> with the four headers that \<open>PostflightCorsSupport\<close> sets
  for the request \<open>req_options\<close>.\<close>

definition resp_html_cors :: Response where
  "resp_html_cors =
     resp_html\<lparr>Header_resp :=
       (Header_resp resp_html)
         (''Access-Control-Allow-Credentials'' \<mapsto> [''true''],
          ''Access-Control-Allow-Headers'' \<mapsto> [''X-Token''],
          ''Access-Control-Allow-Methods'' \<mapsto> [allowedCorsMethods],
          ''Access-Control-Allow-Origin'' \<mapsto> [''*''])\<rparr>"

text \<open>The synthetic response of the preflight of \<open>req_options\<close>.\<close>

definition resp_preflight :: Response where
  "resp_preflight =
     \<lparr>StatusCode = 200,
      Header_resp =
        Map.empty
         (''Content-Type'' \<mapsto> [''text/plain''],
          ''Access-Control-Allow-Credentials'' \<mapsto> [''true''],
          ''Access-Control-Allow-Headers'' \<mapsto> [''X-Token''],
          ''Access-Control-Allow-Methods'' \<mapsto> [allowedCorsMethods],
          ''Access-Control-Allow-Origin'' \<mapsto> [''*''],
          ''Access-Control-Expose-Headers'' \<mapsto> [''Content-Length'']),
      Body_resp = ([], None)\<rparr>"

definition ctx_1 :: ProxyCtx where
  "ctx_1 = \<lparr>Session = 1, Req = req_foo_bar\<rparr>"

definition ctx_options :: ProxyCtx where
  "ctx_options = \<lparr>Session = 1, Req = req_options\<rparr>"

text \<open>The contexts of session 1: as \<open>SetupRequest\<close> stores them, and the context of
  \<open>req_options\<close> after its preflight.\<close>

definition br_foo_bar :: BaseRequest where
  "br_foo_bar = fst (NewBaseRequest req_foo_bar 1)"

definition br_ajax :: BaseRequest where
  "br_ajax = fst (NewBaseRequest req_ajax 1)"

definition br_accept_json :: BaseRequest where
  "br_accept_json = fst (NewBaseRequest req_accept_json 1)"

definition br_override :: BaseRequest where
  "br_override = fst (NewBaseRequest req_override 1)"

definition br_skip :: BaseRequest where
  "br_skip = (fst (NewBaseRequest req_options 1))\<lparr>Skip := True\<rparr>"

definition rd_foo_bar :: RequestData where
  "rd_foo_bar = Map.empty(1 \<mapsto> br_foo_bar)"

definition rd_skip :: RequestData where
  "rd_skip = Map.empty(1 \<mapsto> br_skip)"

text \<open>A store that refuses every record, a store that accepts every record, and the
  capture record of the exchange of \<open>req_foo_bar\<close> and \<open>resp_json\<close>.\<close>

definition create_fails :: "StopLightRequest \<Rightarrow> string option" where
  "create_fails r = Some ''store down''"

definition create_succeeds :: "StopLightRequest \<Rightarrow> string option" where
  "create_succeeds r = None"

definition slr_foo_bar :: StopLightRequest where
  "slr_foo_bar = NewRequest \<lparr>Id_api = ''a1''\<rparr> env_foo req_foo_bar [] resp_json ''{}''"

text \<open>A stand-in for \<open>url.Parse\<close> on targets of the form \<open>scheme://host\<close>.\<close>

definition parse_scheme_host :: "string \<Rightarrow> URL option" where
  "parse_scheme_host s =
     (case Index s ''://'' of
        None \<Rightarrow> None
      | Some j \<Rightarrow> Some \<lparr>Scheme = take j s, Host = drop (j + 3) s, Path = [], RawQuery = []\<rparr>)"

section \<open>Facts about the string operations\<close>

lemma HasPrefix_append: "HasPrefix (s @ t) s"
  by (simp add: HasPrefix_def)

lemma Index_HasPrefix: "HasPrefix x sub \<Longrightarrow> Index x sub = Some 0"
  by (cases x) (auto simp: HasPrefix_def)

lemma Index_append_self: "Index (s @ t) s = Some 0"
  by (rule Index_HasPrefix) (rule HasPrefix_append)

text \<open>An index that \<open>Index\<close> returns is the place of an occurrence.\<close>

lemma Index_Some_decomp:
  "Index s sub = Some j \<Longrightarrow> s = take j s @ sub @ drop (j + length sub) s"
proof (induction s arbitrary: j)
  case Nil
  then show ?case by (simp split: if_splits)
next
  case (Cons c cs)
  show ?case
  proof (cases "HasPrefix (c # cs) sub")
    case True
    with Cons.prems have "j = 0" by simp
    moreover from True have "take (length sub) (c # cs) = sub" by (simp add: HasPrefix_def)
    then have "c # cs = sub @ drop (length sub) (c # cs)"
      by (metis append_take_drop_id)
    ultimately show ?thesis by simp
  next
    case False
    with Cons.prems obtain j' where j': "Index cs sub = Some j'" and j: "j = Suc j'"
      by auto
    from Cons.IH [OF j'] have "cs = take j' cs @ sub @ drop (j' + length sub) cs" .
    then have "c # cs = c # take j' cs @ sub @ drop (j' + length sub) cs" by simp
    with j show ?thesis by simp
  qed
qed

text \<open>No occurrence stands before the index that \<open>Index\<close> returns.\<close>

lemma Index_least: "\<exists>j. Index (a @ sub @ b) sub = Some j \<and> j \<le> length a"
proof (induction a)
  case Nil
  then show ?case by (simp add: Index_append_self)
next
  case (Cons c a)
  then obtain j where "Index (a @ sub @ b) sub = Some j" "j \<le> length a" by blast
  then show ?case by simp
qed

lemma Contains_append_right: "Contains t sub \<Longrightarrow> Contains (s @ t) sub"
  by (induction s) (auto simp: Contains_def)

lemma length_TrimPrefix: "length (TrimPrefix s pre) \<le> length s"
  by (simp add: TrimPrefix_def)

lemma Replace1_prefix: "Replace1 (s @ t) s [] = t"
  by (simp add: Replace1_def Index_append_self)

lemma HasPrefix_shift: "HasPrefix (c # s @ t) s \<Longrightarrow> c # s @ t = s @ c # t"
proof (induction s)
  case Nil
  then show ?case by simp
next
  case (Cons a s)
  from Cons.prems have ac: "a = c" and p: "HasPrefix (c # s @ t) s"
    by (auto simp: HasPrefix_def)
  from Cons.IH [OF p] ac show ?case by simp
qed

text \<open>Behind one leading byte, the first occurrence of \<open>s\<close> in \<open>c # s @ t\<close> is cut out
  with the same result wherever it starts.\<close>

lemma Replace1_behind_byte: "Replace1 (c # s @ t) s [] = c # t"
proof (cases "s = []")
  case True
  then show ?thesis by (simp add: Replace1_def)
next
  case False
  show ?thesis
  proof (cases "HasPrefix (c # s @ t) s")
    case True
    then have eq: "c # s @ t = s @ c # t" by (rule HasPrefix_shift)
    show ?thesis unfolding eq by (rule Replace1_prefix)
  next
    case nop: False
    then have "Index (c # s @ t) s = Some 1"
      by (simp add: Index_append_self)
    with False show ?thesis by (simp add: Replace1_def)
  qed
qed

lemma Split_nonempty: "sep \<noteq> [] \<Longrightarrow> Split s sep \<noteq> []"
  by (subst Split.simps) (simp split: option.splits)

section \<open>The path without the environment\<close>

text \<open>
  C4.  For every environment slug \<open>s\<close>: \<open>urlWithoutEnvironment\<close> maps the path \<open>s\<close> to
  \<open>"/"\<close>, the paths \<open>s + "/x"\<close> and \<open>"/" + s + "/x"\<close> to \<open>"/x"\<close>, and the path
  \<open>s + "/x/"\<close> to \<open>"/x/"\<close>.
\<close>

theorem urlWithoutEnvironment_strips_slug:
  "urlWithoutEnvironment env (Slug env) = ''/''
   \<and> urlWithoutEnvironment env (Slug env @ ''/x'') = ''/x''
   \<and> urlWithoutEnvironment env (''/'' @ Slug env @ ''/x'') = ''/x''
   \<and> urlWithoutEnvironment env (Slug env @ ''/x/'') = ''/x/''"
proof -
  have a: "Replace1 (Slug env) (Slug env) [] = []"
    using Replace1_prefix [of "Slug env" "[]"] by simp
  have b: "Replace1 (Slug env @ ''/x'') (Slug env) [] = ''/x''"
    by (rule Replace1_prefix)
  have c: "Replace1 (''/'' @ Slug env @ ''/x'') (Slug env) [] = ''//x''"
    using Replace1_behind_byte [of "CHR ''/''" "Slug env" "''/x''"] by simp
  have d: "Replace1 (Slug env @ ''/x/'') (Slug env) [] = ''/x/''"
    by (rule Replace1_prefix)
  show ?thesis
    unfolding urlWithoutEnvironment_def a b c d
    by (simp add: TrimPrefix_def HasPrefix_def)
qed

text \<open>The same at the slug \<open>foo\<close> of the test table.\<close>

theorem urlWithoutEnvironment_strips_slug_witness:
  "urlWithoutEnvironment env_foo ''foo'' = ''/''
   \<and> urlWithoutEnvironment env_foo ''foo/x'' = ''/x''
   \<and> urlWithoutEnvironment env_foo ''/foo/x'' = ''/x''
   \<and> urlWithoutEnvironment env_foo ''foo/x/'' = ''/x/''"
  using urlWithoutEnvironment_strips_slug [of env_foo] by (simp add: env_foo_def)

text \<open>The table of the package's own test.\<close>

lemma urlWithoutEnvironment_test_table:
  "urlWithoutEnvironment env_foo ''/foo'' = ''/''"
  "urlWithoutEnvironment env_foo ''/foo/bar'' = ''/bar''"
  "urlWithoutEnvironment env_foo ''foo'' = ''/''"
  "urlWithoutEnvironment env_foo ''foo/bar'' = ''/bar''"
  "urlWithoutEnvironment env_foo ''foo/bar/'' = ''/bar/''"
  by (simp_all add: urlWithoutEnvironment_def Replace1_def HasPrefix_def TrimPrefix_def
      env_foo_def)

text \<open>
  C10, as the claim states it, fails at the slug \<open>foo\<close> and the path \<open>/foo/bar\<close>: the path
  contains the slug and does not start with it, and the result is \<open>/bar\<close>, not the path
  with its first occurrence of the slug deleted, which is \<open>//bar\<close>.
\<close>

theorem urlWithoutEnvironment_not_plain_deletion:
  "Slug env_foo \<noteq> [] \<and> Contains ''/foo/bar'' (Slug env_foo)
   \<and> \<not> HasPrefix ''/foo/bar'' (Slug env_foo)
   \<and> Replace1 ''/foo/bar'' (Slug env_foo) [] = ''//bar''
   \<and> urlWithoutEnvironment env_foo ''/foo/bar'' = ''/bar''
   \<and> urlWithoutEnvironment env_foo ''/foo/bar'' \<noteq> ''//bar''"
  by (simp add: urlWithoutEnvironment_def Replace1_def Contains_def HasPrefix_def
      TrimPrefix_def env_foo_def)

text \<open>
  C10, amended.  For every non-empty slug \<open>s\<close> and every path \<open>p\<close> that contains \<open>s\<close> and
  does not start with it, \<open>p\<close> is \<open>a @ s @ b\<close> with \<open>a\<close> not empty and no occurrence of
  \<open>s\<close> before this one, and the result is \<open>a @ b\<close> (the path with its first occurrence
  of the slug deleted, wherever it stands) with a leading slash trimmed when the second
  byte of \<open>a @ b\<close> is a slash.  The result is never the path unchanged.
\<close>

theorem urlWithoutEnvironment_first_occurrence:
  assumes ne: "Slug env \<noteq> []" and occ: "Contains p (Slug env)"
    and nopre: "\<not> HasPrefix p (Slug env)"
  shows "\<exists>a b. p = a @ Slug env @ b \<and> a \<noteq> []
           \<and> (\<forall>a' b'. p = a' @ Slug env @ b' \<longrightarrow> length a \<le> length a')
           \<and> urlWithoutEnvironment env p =
               (if 1 < length (a @ b) \<and> (a @ b) ! 1 = CHR ''/'' then TrimPrefix (a @ b) ''/''
                else a @ b)
           \<and> urlWithoutEnvironment env p \<noteq> p"
proof -
  from occ obtain j where j: "Index p (Slug env) = Some j"
    by (auto simp: Contains_def)
  define a where "a = take j p"
  define b where "b = drop (j + length (Slug env)) p"
  have dec: "p = a @ Slug env @ b"
    unfolding a_def b_def using j by (rule Index_Some_decomp)
  have a_ne: "a \<noteq> []"
  proof
    assume "a = []"
    with dec have "p = Slug env @ b" by simp
    then have "HasPrefix p (Slug env)" using HasPrefix_append by metis
    with nopre show False ..
  qed
  have la: "length a = j"
  proof -
    from dec have "length (Slug env) + length b + length a = length p"
      by (metis length_append add.commute add.assoc)
    then have "j \<le> length p"
      unfolding a_def using ne by (simp add: min_def split: if_splits)
    then show ?thesis unfolding a_def by simp
  qed
  have least: "\<forall>a' b'. p = a' @ Slug env @ b' \<longrightarrow> length a \<le> length a'"
  proof (intro allI impI)
    fix a' b' assume "p = a' @ Slug env @ b'"
    with Index_least [of a' "Slug env" b'] j la show "length a \<le> length a'" by simp
  qed
  have rep: "Replace1 p (Slug env) [] = a @ b"
    using ne j by (simp add: Replace1_def a_def b_def)
  have res: "urlWithoutEnvironment env p =
               (if 1 < length (a @ b) \<and> (a @ b) ! 1 = CHR ''/'' then TrimPrefix (a @ b) ''/''
                else a @ b)"
    unfolding urlWithoutEnvironment_def rep Let_def using a_ne by simp
  have "length (urlWithoutEnvironment env p) \<le> length (a @ b)"
    unfolding res using length_TrimPrefix [of "a @ b" "''/''"] by simp
  also have "\<dots> < length p"
  proof -
    have "length p = length (a @ Slug env @ b)" using dec by simp
    with ne show ?thesis by simp
  qed
  finally have "urlWithoutEnvironment env p \<noteq> p" by auto
  with dec a_ne least res show ?thesis by blast
qed

text \<open>The example of the claim: the slug \<open>api\<close> in the path \<open>/v1/api/users\<close>.\<close>

theorem urlWithoutEnvironment_first_occurrence_witness:
  "Slug env_api \<noteq> [] \<and> Contains ''/v1/api/users'' (Slug env_api)
   \<and> \<not> HasPrefix ''/v1/api/users'' (Slug env_api)
   \<and> urlWithoutEnvironment env_api ''/v1/api/users'' = ''/v1//users''
   \<and> urlWithoutEnvironment env_api ''/v1/api/users'' \<noteq> ''/v1/api/users''"
proof -
  have h1: "Slug env_api \<noteq> []" by (simp add: env_api_def env_foo_def)
  have h2: "Contains ''/v1/api/users'' (Slug env_api)"
    by (simp add: env_api_def env_foo_def Contains_def HasPrefix_def)
  have h3: "\<not> HasPrefix ''/v1/api/users'' (Slug env_api)"
    by (simp add: env_api_def env_foo_def HasPrefix_def)
  have v: "urlWithoutEnvironment env_api ''/v1/api/users'' = ''/v1//users''"
    by (simp add: urlWithoutEnvironment_def Replace1_def HasPrefix_def env_api_def env_foo_def)
  from urlWithoutEnvironment_first_occurrence [OF h1 h2 h3]
  have "urlWithoutEnvironment env_api ''/v1/api/users'' \<noteq> ''/v1/api/users''" by blast
  with h1 h2 h3 v show ?thesis by blast
qed

section \<open>The slug of a request URI\<close>

text \<open>At the empty string the read of \<open>url[0]\<close> is out of range.  The function is not
  exported, and its one caller, \<open>requestEnvFromPath\<close>, passes the URI of the request,
  which is never empty.\<close>

lemma slugFromUrl_empty_panics: "slugFromUrl [] = Inl IndexOutOfRange"
  by (simp add: slugFromUrl_def)

text \<open>At every other string it returns: the two index expressions behind the first
  are in range.\<close>

lemma slugFromUrl_nonempty_returns:
  assumes "url \<noteq> []"
  shows "\<exists>s. slugFromUrl url = Inr s"
proof -
  from assms obtain c cs where url: "url = c # cs" by (cases url) auto
  have ne: "Split url ''/'' \<noteq> []" by (rule Split_nonempty) simp
  show ?thesis
  proof (cases "c = CHR ''/''")
    case True
    have "Index url ''/'' = Some 0" unfolding url True by (simp add: HasPrefix_def)
    then have "Split url ''/'' = [] # Split (drop 1 url) ''/''"
      by (subst Split.simps) simp
    moreover have "Split (drop 1 url) ''/'' \<noteq> []" by (rule Split_nonempty) simp
    ultimately have "1 < length (Split url ''/'')"
      by (cases "Split (drop 1 url) ''/''") auto
    then show ?thesis unfolding slugFromUrl_def url True by (simp add: Let_def)
  next
    case False
    from ne have "0 < length (Split url ''/'')" by simp
    with False show ?thesis unfolding slugFromUrl_def url by (simp add: Let_def)
  qed
qed

text \<open>The table of the package's own test.\<close>

lemma slugFromUrl_test_table:
  "slugFromUrl ''/'' = Inr []"
  "slugFromUrl ''/foo'' = Inr ''foo''"
  "slugFromUrl ''/foo/bar'' = Inr ''foo''"
  "slugFromUrl ''foo'' = Inr ''foo''"
  "slugFromUrl ''/foo/bar/'' = Inr ''foo''"
  "slugFromUrl ''/foo-bar/fee/'' = Inr ''foo-bar''"
  by code_simp+

section \<open>Environment resolution\<close>

lemma RequestURI_nonempty: "RequestURI u \<noteq> []"
  by (simp add: RequestURI_def Let_def)

text \<open>The URI of a request is never empty, so the look-up by path never panics, and
  neither do the methods built on it.\<close>

lemma requestEnvFromPath_returns: "\<exists>e. requestEnvFromPath db br = Inr e"
proof -
  obtain s where "slugFromUrl (RequestURI (URL (HttpRequest br))) = Inr s"
    using slugFromUrl_nonempty_returns [OF RequestURI_nonempty] by blast
  then show ?thesis by (simp add: requestEnvFromPath_def)
qed



lemma GetEnvironment_returns: "\<exists>e. GetEnvironment db br = Inr (e, br)"
proof -
  obtain e where "requestEnvFromPath db br = Inr e"
    using requestEnvFromPath_returns by blast
  then show ?thesis by (simp add: GetEnvironment_def split: option.splits)
qed

text \<open>\<open>GetEnvironment\<close> stores nothing: the receiver is the same after every call.\<close>

lemma GetEnvironment_receiver: "GetEnvironment db br = Inr (e, br') \<Longrightarrow> br' = br"
  using GetEnvironment_returns [of db br] by auto

lemma GetApi_returns: "\<exists>a. GetApi db br = Inr (a, br)"
proof -
  obtain e where "GetEnvironment db br = Inr (e, br)"
    using GetEnvironment_returns by blast
  then show ?thesis by (simp add: GetApi_def Let_def split: option.splits)
qed

text \<open>
  What \<open>GetEnvironment\<close> returns for a context with nothing stored is the zero
  environment or a running row of the store.  So, when every row has a slug, the test
  \<open>env.Slug != ""\<close> of the callers says that an environment was found.
\<close>

lemma find_zero_or_row:
  "(case find P rows of None \<Rightarrow> zeroEnvironment | Some r \<Rightarrow> r) = e \<Longrightarrow>
     e = zeroEnvironment \<or> (e \<in> set rows \<and> P e)"
  by (auto simp: find_Some_iff split: option.splits)

lemma GetEnvironment_zero_or_running:
  assumes "env_ptr br = None" and "GetEnvironment db br = Inr (e, br')"
  shows "e = zeroEnvironment \<or> (e \<in> set (environments db) \<and> Running e)"
proof -
  obtain s where s: "slugFromUrl (RequestURI (URL (HttpRequest br))) = Inr s"
    using slugFromUrl_nonempty_returns [OF RequestURI_nonempty] by blast
  let ?p = "case find (\<lambda>r. Slug r = s \<and> Running r) (environments db) of
              None \<Rightarrow> zeroEnvironment | Some r \<Rightarrow> r"
  let ?h = "requestEnvFromHost db br"
  have p: "?p = zeroEnvironment \<or> (?p \<in> set (environments db) \<and> Running ?p)"
    using find_zero_or_row [of "\<lambda>r. Slug r = s \<and> Running r" "environments db" ?p] by blast
  have h: "?h = zeroEnvironment \<or> (?h \<in> set (environments db) \<and> Running ?h)"
    using find_zero_or_row [of "\<lambda>r. Url r = Host (URL (HttpRequest br)) \<and> Running r"
        "environments db" ?h]
    unfolding requestEnvFromHost_def Let_def by blast
  from assms s have "e = (if Id_env ?p = [] then ?h else ?p)"
    by (simp add: GetEnvironment_def requestEnvFromPath_def)
  with p h show ?thesis by (cases "Id_env ?p = []") simp_all
qed

lemma resolved_iff_slug:
  assumes "env_ptr br = None" and "\<forall>r \<in> set (environments db). Slug r \<noteq> []"
    and "GetEnvironment db br = Inr (e, br')"
  shows "Slug e \<noteq> [] \<longleftrightarrow> e \<in> set (environments db) \<and> Running e"
  using GetEnvironment_zero_or_running [OF assms(1,3)] assms(2)
  by (auto simp: zeroEnvironment_def)

lemma slugFromUrl_foo_bar: "slugFromUrl ''/foo/bar'' = Inr ''foo''"
  by code_simp

lemma GetEnvironment_foo_bar:
  "Path (URL (HttpRequest br)) = ''/foo/bar'' \<Longrightarrow> RawQuery (URL (HttpRequest br)) = []
   \<Longrightarrow> env_ptr br = None \<Longrightarrow> environments db = [e] \<Longrightarrow> Slug e = ''foo'' \<Longrightarrow> Running e
   \<Longrightarrow> Id_env e \<noteq> [] \<Longrightarrow> GetEnvironment db br = Inr (e, br)"
  by (simp add: GetEnvironment_def requestEnvFromPath_def RequestURI_def slugFromUrl_foo_bar)

lemma GetApi_foo_bar:
  "Path (URL (HttpRequest br)) = ''/foo/bar'' \<Longrightarrow> RawQuery (URL (HttpRequest br)) = []
   \<Longrightarrow> env_ptr br = None \<Longrightarrow> api_ptr br = None
   \<Longrightarrow> GetApi db_running br = Inr (\<lparr>Id_api = ''a1''\<rparr>, br)"
  by (simp add: GetApi_def GetEnvironment_def requestEnvFromPath_def RequestURI_def
      slugFromUrl_foo_bar db_running_def env_foo_def)

lemmas example_defs =
  br_foo_bar_def br_skip_def br_ajax_def br_accept_json_def br_override_def rd_foo_bar_def
  rd_skip_def NewBaseRequest_def ReadAll_def NopCloser_def req_foo_bar_def req_ajax_def
  req_accept_json_def req_override_def req_options_def ctx_1_def ctx_options_def
  db_running_def db_stopped_def db_tls_def env_foo_def zeroEnvironment_def zeroApi_def

lemma br_foo_bar_fields:
  "\<not> Skip br_foo_bar" "Method (HttpRequest br_foo_bar) = ''GET''"
  "Header (HttpRequest br_foo_bar) = Map.empty"
  by (simp_all add: example_defs)

lemma br_ajax_fields:
  "\<not> Skip br_ajax" "Method (HttpRequest br_ajax) = ''GET''"
  "Header (HttpRequest br_ajax) = Map.empty(''X-Requested-With'' \<mapsto> [''XMLHttpRequest''])"
  by (simp_all add: example_defs)

lemma br_accept_json_fields:
  "\<not> Skip br_accept_json" "Method (HttpRequest br_accept_json) = ''GET''"
  "Header (HttpRequest br_accept_json) = Map.empty(''Accept'' \<mapsto> [''application/json''])"
  by (simp_all add: example_defs)

lemma GetApi_br_foo_bar: "GetApi db_running br_foo_bar = Inr (\<lparr>Id_api = ''a1''\<rparr>, br_foo_bar)"
  by (rule GetApi_foo_bar) (simp_all add: example_defs)

lemma GetApi_br_ajax: "GetApi db_running br_ajax = Inr (\<lparr>Id_api = ''a1''\<rparr>, br_ajax)"
  by (rule GetApi_foo_bar) (simp_all add: example_defs)

lemma GetApi_br_accept_json:
  "GetApi db_running br_accept_json = Inr (\<lparr>Id_api = ''a1''\<rparr>, br_accept_json)"
  by (rule GetApi_foo_bar) (simp_all add: example_defs)

lemma GetEnvironment_br_foo_bar:
  "GetEnvironment db_running br_foo_bar = Inr (env_foo, br_foo_bar)"
  by (rule GetEnvironment_foo_bar) (simp_all add: example_defs)

lemma GetEnvironment_br_skip: "GetEnvironment db_running br_skip = Inr (env_foo, br_skip)"
  by (rule GetEnvironment_foo_bar) (simp_all add: example_defs)

text \<open>
  C1.  Environment resolution is not memoized on the context.  The context that
  \<open>NewBaseRequest\<close> makes for \<open>GET /foo/bar\<close> has no environment stored; a call of
  \<open>GetEnvironment\<close> while the environment \<open>foo\<close> runs returns it and leaves the context
  as it was, with nothing stored; the next call on the same context, after the
  environment has stopped, looks it up again and returns the zero environment.
\<close>

theorem GetEnvironment_resolves_again:
  "env_ptr br_foo_bar = None
   \<and> GetEnvironment db_running br_foo_bar = Inr (env_foo, br_foo_bar)
   \<and> GetEnvironment db_stopped br_foo_bar = Inr (zeroEnvironment, br_foo_bar)
   \<and> env_foo \<noteq> zeroEnvironment"
  by (simp add: br_foo_bar_def NewBaseRequest_def ReadAll_def NopCloser_def req_foo_bar_def
      GetEnvironment_def requestEnvFromPath_def requestEnvFromHost_def RequestURI_def
      slugFromUrl_foo_bar db_running_def db_stopped_def env_foo_def zeroEnvironment_def)

section \<open>The rewrite target\<close>

text \<open>
  C5.  \<open>GetOrigin\<close> chooses the target in this order: the value of the override header
  \<open>X-StopLight-Url-Host\<close> when it is not empty; otherwise, when an environment is
  resolved (the environment that \<open>GetEnvironment\<close> returns has a slug, the test of the
  source), the upstream host of the environment behind \<open>https://\<close> when its TLS flag is
  set and behind \<open>http://\<close> when it is not; otherwise the URL of the request, unchanged.
\<close>

theorem GetOrigin_priority:
  "\<exists>e. GetEnvironment db br = Inr (e, br)
     \<and> (Header_Get (ReqHeaders br) ''X-StopLight-Url-Host'' \<noteq> [] \<longrightarrow>
          GetOrigin Parse db br =
            Inr (Parse (Header_Get (ReqHeaders br) ''X-StopLight-Url-Host''), br))
     \<and> (Header_Get (ReqHeaders br) ''X-StopLight-Url-Host'' = [] \<and> Slug e \<noteq> [] \<longrightarrow>
          GetOrigin Parse db br =
            Inr (Parse ((if Ssl e then ''https://'' else ''http://'') @ Url e), br))
     \<and> (Header_Get (ReqHeaders br) ''X-StopLight-Url-Host'' = [] \<and> Slug e = [] \<longrightarrow>
          GetOrigin Parse db br = Inr (Some (URL (HttpRequest br)), br))"
proof -
  obtain e where e: "GetEnvironment db br = Inr (e, br)"
    using GetEnvironment_returns by blast
  then show ?thesis by (auto simp: GetOrigin_def Let_def)
qed

text \<open>The three cases at work: an override header; the environment \<open>foo\<close> without
  and with TLS; no running environment.\<close>

theorem GetOrigin_priority_witness:
  "GetOrigin parse_scheme_host db_running br_override =
     Inr (Some \<lparr>Scheme = ''http'', Host = ''localhost:3000'', Path = [], RawQuery = []\<rparr>,
          br_override)
   \<and> GetOrigin parse_scheme_host db_running br_foo_bar =
     Inr (Some \<lparr>Scheme = ''http'', Host = ''api.internal:9000'', Path = [], RawQuery = []\<rparr>,
          br_foo_bar)
   \<and> GetOrigin parse_scheme_host db_tls br_foo_bar =
     Inr (Some \<lparr>Scheme = ''https'', Host = ''api.internal:9000'', Path = [], RawQuery = []\<rparr>,
          br_foo_bar)
   \<and> GetOrigin parse_scheme_host db_stopped br_foo_bar =
     Inr (Some (URL req_foo_bar), br_foo_bar)"
proof -
  have e2: "GetEnvironment db_tls br_foo_bar = Inr (env_foo\<lparr>Ssl := True\<rparr>, br_foo_bar)"
    by (rule GetEnvironment_foo_bar) (simp_all add: example_defs)
  have e3: "GetEnvironment db_stopped br_foo_bar = Inr (zeroEnvironment, br_foo_bar)"
    by (simp add: example_defs GetEnvironment_def requestEnvFromPath_def
        requestEnvFromHost_def RequestURI_def slugFromUrl_foo_bar)
  have h0: "Header_Get (ReqHeaders br_override) ''X-StopLight-Url-Host'' =
              ''http://localhost:3000''"
    by (simp add: example_defs Header_Get_def)
  have h1: "Header_Get (ReqHeaders br_foo_bar) ''X-StopLight-Url-Host'' = []"
    by (simp add: example_defs Header_Get_def)
  have p0: "parse_scheme_host ''http://localhost:3000'' =
      Some \<lparr>Scheme = ''http'', Host = ''localhost:3000'', Path = [], RawQuery = []\<rparr>"
    by (simp add: parse_scheme_host_def HasPrefix_def)
  have p1: "parse_scheme_host ''http://api.internal:9000'' =
      Some \<lparr>Scheme = ''http'', Host = ''api.internal:9000'', Path = [], RawQuery = []\<rparr>"
    by (simp add: parse_scheme_host_def HasPrefix_def)
  have p2: "parse_scheme_host ''https://api.internal:9000'' =
      Some \<lparr>Scheme = ''https'', Host = ''api.internal:9000'', Path = [], RawQuery = []\<rparr>"
    by (simp add: parse_scheme_host_def HasPrefix_def)
  have a: "GetOrigin parse_scheme_host db_running br_override =
     Inr (Some \<lparr>Scheme = ''http'', Host = ''localhost:3000'', Path = [], RawQuery = []\<rparr>,
          br_override)"
    using GetOrigin_priority [of db_running br_override parse_scheme_host] h0 p0 by auto
  have b: "GetOrigin parse_scheme_host db_running br_foo_bar =
     Inr (Some \<lparr>Scheme = ''http'', Host = ''api.internal:9000'', Path = [], RawQuery = []\<rparr>,
          br_foo_bar)"
    using GetOrigin_priority [of db_running br_foo_bar parse_scheme_host] h1
      GetEnvironment_br_foo_bar p1
    by (auto simp: env_foo_def)
  have c: "GetOrigin parse_scheme_host db_tls br_foo_bar =
     Inr (Some \<lparr>Scheme = ''https'', Host = ''api.internal:9000'', Path = [], RawQuery = []\<rparr>,
          br_foo_bar)"
    using GetOrigin_priority [of db_tls br_foo_bar parse_scheme_host] h1 e2 p2
    by (auto simp: env_foo_def)
  have d: "GetOrigin parse_scheme_host db_stopped br_foo_bar =
     Inr (Some (URL req_foo_bar), br_foo_bar)"
    using GetOrigin_priority [of db_stopped br_foo_bar parse_scheme_host] h1 e3
    by (auto simp: example_defs)
  from a b c d show ?thesis by blast
qed

section \<open>The stages behind the response\<close>

text \<open>
  The skip flag is false in the context that \<open>SetupRequest\<close> stores and is set in one
  place only, the \<open>OPTIONS\<close> branch of \<open>PreflightCorsSupport\<close>, which answers the request
  itself; the stages behind the response then work on that answer.  No other stage
  changes the session map.
\<close>

lemma SetupRequest_no_skip:
  "\<exists>d. fst (snd (SetupRequest requestData r ctx)) (Session ctx) = Some d \<and> \<not> Skip d"
  by (simp add: SetupRequest_def NewBaseRequest_def split: prod.splits)

lemma PreflightCorsSupport_options_result:
  assumes opt: "Method r = ''OPTIONS''"
    and run: "PreflightCorsSupport db0 requestData0 r ctx = Inr ((r', presp), requestData1)"
  shows "\<exists>data0. requestData0 (Session ctx) = Some data0
           \<and> requestData1 = requestData0(Session ctx \<mapsto> data0\<lparr>Skip := True\<rparr>)
           \<and> r' = r
           \<and> presp = Some ((NewResponse r ContentTypeText 200 [])\<lparr>Header_resp :=
                 Header_Set (Header_Set (Header_Set (Header_Set (Header_Set
                   (Header_resp (NewResponse r ContentTypeText 200 []))
                   ''Access-Control-Allow-Credentials'' ''true'')
                   ''Access-Control-Allow-Headers''
                     (Header_Get (Header r) ''Access-Control-Request-Headers''))
                   ''Access-Control-Allow-Methods'' allowedCorsMethods)
                   ''Access-Control-Allow-Origin'' ''*'')
                   ''Access-Control-Expose-Headers'' ''Content-Length''\<rparr>)"
  using assms
  by (auto simp: PreflightCorsSupport_def Let_def split: option.splits)

lemma PreflightCorsSupport_other_method:
  assumes "Method r \<noteq> ''OPTIONS''"
    and "PreflightCorsSupport db requestData r ctx = Inr (x, requestData1)"
  shows "requestData1 = requestData"
proof -
  from assms obtain d where d: "requestData (Session ctx) = Some d"
    by (auto simp: PreflightCorsSupport_def split: option.splits)
  obtain e where e: "GetEnvironment db d = Inr (e, d)" using GetEnvironment_returns by blast
  have "requestData(Session ctx \<mapsto> d) = requestData" using d by (rule map_upd_triv)
  with assms d e show ?thesis
    by (auto simp: PreflightCorsSupport_def Let_def split: if_splits)
qed

lemma PostflightCorsSupport_keeps_map:
  assumes run: "PostflightCorsSupport db requestData resp ctx = Inr (x, requestData1)"
  shows "requestData1 = requestData"
proof (cases "requestData (Session ctx)")
  case None
  with run show ?thesis by (auto simp: PostflightCorsSupport_def split: option.splits)
next
  case (Some d)
  obtain e where e: "GetEnvironment db d = Inr (e, d)" using GetEnvironment_returns by blast
  have "requestData(Session ctx \<mapsto> d) = requestData" using Some by (rule map_upd_triv)
  with run Some e show ?thesis
    by (auto simp: PostflightCorsSupport_def Let_def split: option.splits if_splits)
qed

text \<open>Setting the four headers of \<open>PostflightCorsSupport\<close> again, behind the five of the
  preflight, changes nothing.\<close>

lemma cors_headers_idem:
  "Header_Set (Header_Set (Header_Set (Header_Set
      (Header_Set (Header_Set (Header_Set (Header_Set (Header_Set h
         ''Access-Control-Allow-Credentials'' ''true'')
         ''Access-Control-Allow-Headers'' v)
         ''Access-Control-Allow-Methods'' allowedCorsMethods)
         ''Access-Control-Allow-Origin'' ''*'')
         ''Access-Control-Expose-Headers'' ''Content-Length'')
      ''Access-Control-Allow-Credentials'' ''true'')
      ''Access-Control-Allow-Headers'' v)
      ''Access-Control-Allow-Methods'' allowedCorsMethods)
      ''Access-Control-Allow-Origin'' ''*''
   = Header_Set (Header_Set (Header_Set (Header_Set (Header_Set h
         ''Access-Control-Allow-Credentials'' ''true'')
         ''Access-Control-Allow-Headers'' v)
         ''Access-Control-Allow-Methods'' allowedCorsMethods)
         ''Access-Control-Allow-Origin'' ''*'')
         ''Access-Control-Expose-Headers'' ''Content-Length''"
  by (rule ext) (simp add: Header_Set_def)

text \<open>The preflight of \<open>req_options\<close>: \<open>SetupRequest\<close> stores its context, and
  \<open>PreflightCorsSupport\<close> answers with \<open>resp_preflight\<close> and sets the skip flag.\<close>

lemma SetupRequest_options:
  "SetupRequest Map.empty req_options ctx_options =
     ((req_options, None), Map.empty(1 \<mapsto> fst (NewBaseRequest req_options 1)), [])"
  by (simp add: SetupRequest_def example_defs)

lemma PreflightCorsSupport_options:
  "PreflightCorsSupport db_running (Map.empty(1 \<mapsto> fst (NewBaseRequest req_options 1)))
     req_options ctx_options = Inr ((req_options, Some resp_preflight), rd_skip)"
  by (simp add: PreflightCorsSupport_def Let_def NewResponse_def ContentTypeText_def
      Header_Set_def Header_Get_def resp_preflight_def example_defs)

text \<open>
  C6.  For every context whose skip flag is set, \<open>SetupResponse\<close> returns the response as
  it is (no \<open>X-Forwarded-For\<close>, no marker header) and \<open>SaveStopLightRequest\<close> returns it
  as it is and captures nothing, whatever the response.  And behind every preflight,
  the one place where the flag is set, the context of the session has the flag set and
  all three stages behind the response, \<open>PostflightCorsSupport\<close> among them, return the
  preflight's response as it is, with no header added and nothing captured.  (\<open>Req ctx\<close>
  is the request the engine hands to the stages.)
\<close>

theorem skip_flag_post_response:
  "(requestData (Session ctx) = Some data \<and> Skip data \<longrightarrow>
      SetupResponse requestData resp ctx = resp
      \<and> SaveStopLightRequest create db requestData resp ctx = Inr (resp, requestData, []))
   \<and> (Method r = ''OPTIONS'' \<and> Req ctx = r
      \<and> PreflightCorsSupport db0 requestData0 r ctx = Inr ((r', presp), requestData1) \<longrightarrow>
      (\<exists>data1 rsp. requestData1 (Session ctx) = Some data1 \<and> Skip data1 \<and> presp = Some rsp
         \<and> SetupResponse requestData1 presp ctx = presp
         \<and> SaveStopLightRequest create db requestData1 presp ctx = Inr (presp, requestData1, [])
         \<and> PostflightCorsSupport db requestData1 presp ctx = Inr (presp, requestData1)))"
proof (intro conjI impI)
  assume h: "requestData (Session ctx) = Some data \<and> Skip data"
  then show "SetupResponse requestData resp ctx = resp"
    by (simp add: SetupResponse_def split: option.splits)
  from h show "SaveStopLightRequest create db requestData resp ctx = Inr (resp, requestData, [])"
    by (simp add: SaveStopLightRequest_def)
next
  assume h: "Method r = ''OPTIONS'' \<and> Req ctx = r
      \<and> PreflightCorsSupport db0 requestData0 r ctx = Inr ((r', presp), requestData1)"
  then have opt: "Method r = ''OPTIONS''" and req: "Req ctx = r"
    and run: "PreflightCorsSupport db0 requestData0 r ctx = Inr ((r', presp), requestData1)"
    by simp_all
  from PreflightCorsSupport_options_result [OF opt run] obtain data0 rsp where
    d0: "requestData0 (Session ctx) = Some data0"
    and rd1: "requestData1 = requestData0(Session ctx \<mapsto> data0\<lparr>Skip := True\<rparr>)"
    and presp: "presp = Some rsp"
    and rsp: "rsp = (NewResponse r ContentTypeText 200 [])\<lparr>Header_resp :=
                 Header_Set (Header_Set (Header_Set (Header_Set (Header_Set
                   (Header_resp (NewResponse r ContentTypeText 200 []))
                   ''Access-Control-Allow-Credentials'' ''true'')
                   ''Access-Control-Allow-Headers''
                     (Header_Get (Header r) ''Access-Control-Request-Headers''))
                   ''Access-Control-Allow-Methods'' allowedCorsMethods)
                   ''Access-Control-Allow-Origin'' ''*'')
                   ''Access-Control-Expose-Headers'' ''Content-Length''\<rparr>"
    by blast
  let ?data1 = "data0\<lparr>Skip := True\<rparr>"
  have e1: "requestData1 (Session ctx) = Some ?data1" by (simp add: rd1)
  have sk: "Skip ?data1" by simp
  have upd: "requestData1(Session ctx \<mapsto> ?data1) = requestData1"
    using e1 by (rule map_upd_triv)
  have a: "SetupResponse requestData1 presp ctx = presp"
    using e1 by (simp add: SetupResponse_def presp)
  have b: "SaveStopLightRequest create db requestData1 presp ctx = Inr (presp, requestData1, [])"
    using e1 by (simp add: SaveStopLightRequest_def)
  obtain e where e: "GetEnvironment db ?data1 = Inr (e, ?data1)"
    using GetEnvironment_returns by blast
  have keep: "rsp\<lparr>Header_resp :=
        Header_Set (Header_Set (Header_Set (Header_Set (Header_resp rsp)
          ''Access-Control-Allow-Credentials'' ''true'')
          ''Access-Control-Allow-Headers''
            (Header_Get (Header (Req ctx)) ''Access-Control-Request-Headers''))
          ''Access-Control-Allow-Methods'' allowedCorsMethods)
          ''Access-Control-Allow-Origin'' ''*''\<rparr> = rsp"
    unfolding rsp req by (simp add: cors_headers_idem)
  have c: "PostflightCorsSupport db requestData1 presp ctx = Inr (presp, requestData1)"
    unfolding PostflightCorsSupport_def presp
    using e1 e upd keep by (simp add: Let_def)
  from e1 sk presp a b c show "\<exists>data1 rsp. requestData1 (Session ctx) = Some data1 \<and> Skip data1
         \<and> presp = Some rsp
         \<and> SetupResponse requestData1 presp ctx = presp
         \<and> SaveStopLightRequest create db requestData1 presp ctx = Inr (presp, requestData1, [])
         \<and> PostflightCorsSupport db requestData1 presp ctx = Inr (presp, requestData1)"
    by blast
qed

text \<open>The stages behind the preflight of \<open>req_options\<close>: every one of them returns
  \<open>resp_preflight\<close> as it is, and nothing is captured.\<close>

theorem skip_flag_post_response_witness:
  "rd_skip (Session ctx_options) = Some br_skip \<and> Skip br_skip
   \<and> Method req_options = ''OPTIONS'' \<and> Req ctx_options = req_options
   \<and> PreflightCorsSupport db_running (Map.empty(1 \<mapsto> fst (NewBaseRequest req_options 1)))
        req_options ctx_options = Inr ((req_options, Some resp_preflight), rd_skip)
   \<and> SetupResponse rd_skip (Some resp_preflight) ctx_options = Some resp_preflight
   \<and> SaveStopLightRequest create_succeeds db_running rd_skip (Some resp_preflight) ctx_options
       = Inr (Some resp_preflight, rd_skip, [])
   \<and> PostflightCorsSupport db_running rd_skip (Some resp_preflight) ctx_options
       = Inr (Some resp_preflight, rd_skip)"
proof -
  have h1: "rd_skip (Session ctx_options) = Some br_skip"
    by (simp add: rd_skip_def ctx_options_def)
  have h2: "Skip br_skip" by (simp add: br_skip_def)
  have h3: "Method req_options = ''OPTIONS''" by (simp add: req_options_def)
  have h4: "Req ctx_options = req_options" by (simp add: ctx_options_def)
  note h5 = PreflightCorsSupport_options
  from skip_flag_post_response [where requestData = rd_skip and ctx = ctx_options
      and data = br_skip and resp = "Some resp_preflight" and create = create_succeeds
      and db = db_running and r = req_options and db0 = db_running
      and ?requestData0.0 = "Map.empty(1 \<mapsto> fst (NewBaseRequest req_options 1))"
      and r' = req_options and presp = "Some resp_preflight" and ?requestData1.0 = rd_skip]
    h1 h2 h3 h4 h5
  have "SetupResponse rd_skip (Some resp_preflight) ctx_options = Some resp_preflight
     \<and> SaveStopLightRequest create_succeeds db_running rd_skip (Some resp_preflight) ctx_options
         = Inr (Some resp_preflight, rd_skip, [])
     \<and> PostflightCorsSupport db_running rd_skip (Some resp_preflight) ctx_options
         = Inr (Some resp_preflight, rd_skip)"
    by blast
  with h1 h2 h3 h4 h5 show ?thesis by blast
qed

text \<open>
  \<open>PostflightCorsSupport\<close> itself has no test of the flag: its guard is the response, the
  context and the slug of the environment.  Handed a response without CORS headers
  together with a context whose flag is set, a pair that no run of the stages above
  produces, it would set the four headers.
\<close>

lemma PostflightCorsSupport_guard:
  "rd_skip (Session ctx_options) = Some br_skip \<and> Skip br_skip
   \<and> PostflightCorsSupport db_running rd_skip (Some resp_html) ctx_options
       = Inr (Some resp_html_cors, rd_skip)"
proof -
  have h1: "rd_skip (Session ctx_options) = Some br_skip"
    by (simp add: rd_skip_def ctx_options_def)
  have h2: "Skip br_skip" by (simp add: br_skip_def)
  have upd: "rd_skip(Session ctx_options \<mapsto> br_skip) = rd_skip"
    using h1 by (rule map_upd_triv)
  have p: "PostflightCorsSupport db_running rd_skip (Some resp_html) ctx_options
       = Inr (Some resp_html_cors, rd_skip)"
    using h1 GetEnvironment_br_skip upd
    by (simp add: PostflightCorsSupport_def Let_def resp_html_cors_def Header_Set_def
        Header_Get_def env_foo_def ctx_options_def req_options_def req_foo_bar_def)
  with h1 h2 show ?thesis by blast
qed

section \<open>Capture and broadcast\<close>

text \<open>\<open>SaveStopLightRequest\<close> returns on every input, and leaves the session map as it
  was.\<close>

lemma SaveStopLightRequest_returns:
  "\<exists>resp' effs. SaveStopLightRequest create db requestData resp ctx =
      Inr (resp', requestData, effs)"
proof (cases "requestData (Session ctx)")
  case None
  then show ?thesis by (simp add: SaveStopLightRequest_def)
next
  case (Some br)
  obtain a where a: "GetApi db br = Inr (a, br)" using GetApi_returns by blast
  obtain e where e: "GetEnvironment db br = Inr (e, br)" using GetEnvironment_returns by blast
  have upd: "requestData(Session ctx \<mapsto> br) = requestData"
    using Some by (rule map_upd_triv)
  show ?thesis
    unfolding SaveStopLightRequest_def
    by (simp add: Some a e upd Let_def split: prod.splits)
qed

text \<open>
  C8.  Whenever \<open>SaveStopLightRequest\<close> hands a capture record to the store and the store
  returns an error, the error is logged, as the last effect, and nothing is broadcast;
  an event is broadcast only as \<open>request.create\<close>, for a record that was handed to the
  store and that the store accepted; and every accepted record is broadcast.
\<close>

theorem SaveStopLightRequest_broadcast_after_persist:
  assumes "SaveStopLightRequest create db requestData resp ctx = Inr (resp', requestData', effs)"
  shows "(\<forall>r msg. Create r \<in> set effs \<and> create r = Some msg \<longrightarrow>
            last effs = Log msg \<and> (\<forall>name model r'. BroadcastEvent name model r' \<notin> set effs))
       \<and> (\<forall>name model r. BroadcastEvent name model r \<in> set effs \<longrightarrow>
            name = ''request.create'' \<and> Create r \<in> set effs \<and> create r = None)
       \<and> (\<forall>r. Create r \<in> set effs \<and> create r = None \<longrightarrow>
            BroadcastEvent ''request.create'' ''request'' r \<in> set effs)"
  using assms
  by (auto simp: SaveStopLightRequest_def Let_def ReadAll_def
      split: option.splits sum.splits if_splits prod.splits)

text \<open>The exchange of \<open>req_foo_bar\<close> and \<open>resp_json\<close> is captured; what follows depends
  on the store alone.\<close>

lemma SaveStopLightRequest_foo_bar:
  "SaveStopLightRequest create db_running rd_foo_bar (Some resp_json) ctx_1 =
     Inr (Some resp_json, rd_foo_bar,
          [Create slr_foo_bar,
           (case create slr_foo_bar of
              Some msg \<Rightarrow> Log msg
            | None \<Rightarrow> BroadcastEvent ''request.create'' ''request'' slr_foo_bar)])"
proof -
  have v: "isValidResponse (HttpRequest br_foo_bar) (Some resp_json)"
    by (simp add: isValidResponse_def Let_def Header_Get_def Contains_def HasPrefix_def
        resp_json_def br_foo_bar_fields)
  have r: "rd_foo_bar (Session ctx_1) = Some br_foo_bar"
    by (simp add: rd_foo_bar_def ctx_1_def)
  have upd: "rd_foo_bar(Session ctx_1 \<mapsto> br_foo_bar) = rd_foo_bar"
    using r by (rule map_upd_triv)
  have nb: "resp_json\<lparr>Body_resp := NopCloser ''{}''\<rparr> = resp_json"
    by (simp add: resp_json_def NopCloser_def)
  have sl: "NewRequest \<lparr>Id_api = ''a1''\<rparr> env_foo (HttpRequest br_foo_bar) (GetBody br_foo_bar)
              resp_json ''{}'' = slr_foo_bar"
    by (simp add: slr_foo_bar_def GetBody_def br_foo_bar_def NewBaseRequest_def ReadAll_def
        NopCloser_def req_foo_bar_def)
  have bd: "ReadAll (Body_resp resp_json) = (''{}'', None)"
    by (simp add: ReadAll_def resp_json_def)
  show ?thesis
    unfolding SaveStopLightRequest_def
    by (simp add: r br_foo_bar_fields GetApi_br_foo_bar GetEnvironment_br_foo_bar v upd bd nb
        sl Let_def split: option.splits)
qed

theorem SaveStopLightRequest_broadcast_after_persist_witness:
  "SaveStopLightRequest create_fails db_running rd_foo_bar (Some resp_json) ctx_1 =
     Inr (Some resp_json, rd_foo_bar, [Create slr_foo_bar, Log ''store down''])
   \<and> create_fails slr_foo_bar = Some ''store down''
   \<and> last [Create slr_foo_bar, Log ''store down''] = Log ''store down''
   \<and> BroadcastEvent ''request.create'' ''request'' slr_foo_bar
         \<notin> set [Create slr_foo_bar, Log ''store down'']
   \<and> SaveStopLightRequest create_succeeds db_running rd_foo_bar (Some resp_json) ctx_1 =
     Inr (Some resp_json, rd_foo_bar,
          [Create slr_foo_bar, BroadcastEvent ''request.create'' ''request'' slr_foo_bar])
   \<and> create_succeeds slr_foo_bar = None"
proof -
  have c: "create_fails slr_foo_bar = Some ''store down''" by (simp add: create_fails_def)
  have run: "SaveStopLightRequest create_fails db_running rd_foo_bar (Some resp_json) ctx_1 =
     Inr (Some resp_json, rd_foo_bar, [Create slr_foo_bar, Log ''store down''])"
    using SaveStopLightRequest_foo_bar [of create_fails] by (simp add: c)
  have c': "create_succeeds slr_foo_bar = None" by (simp add: create_succeeds_def)
  have run': "SaveStopLightRequest create_succeeds db_running rd_foo_bar (Some resp_json) ctx_1 =
     Inr (Some resp_json, rd_foo_bar,
          [Create slr_foo_bar, BroadcastEvent ''request.create'' ''request'' slr_foo_bar])"
    using SaveStopLightRequest_foo_bar [of create_succeeds] by (simp add: c')
  from SaveStopLightRequest_broadcast_after_persist [OF run]
  have "\<forall>r msg. Create r \<in> set [Create slr_foo_bar, Log ''store down'']
            \<and> create_fails r = Some msg \<longrightarrow>
          last [Create slr_foo_bar, Log ''store down''] = Log msg
          \<and> (\<forall>name model r'. BroadcastEvent name model r'
                 \<notin> set [Create slr_foo_bar, Log ''store down''])"
    by (rule conjunct1)
  then have "Create slr_foo_bar \<in> set [Create slr_foo_bar, Log ''store down'']
            \<and> create_fails slr_foo_bar = Some ''store down'' \<longrightarrow>
          last [Create slr_foo_bar, Log ''store down''] = Log ''store down''
          \<and> (\<forall>name model r'. BroadcastEvent name model r'
                 \<notin> set [Create slr_foo_bar, Log ''store down''])"
    by blast
  with c have "last [Create slr_foo_bar, Log ''store down''] = Log ''store down''
        \<and> BroadcastEvent ''request.create'' ''request'' slr_foo_bar
             \<notin> set [Create slr_foo_bar, Log ''store down'']"
    by simp
  with run c run' c' show ?thesis by blast
qed

section \<open>Teardown\<close>


text \<open>
  C9.  Removal is idempotent: \<open>Cleanup\<close> for a session that has no entry leaves the
  session map unchanged, and \<open>Cleanup\<close> after \<open>Cleanup\<close> changes nothing at all.  The
  stage has no failing branch.
\<close>

theorem Cleanup_idempotent:
  "(requestData (Session ctx) = None \<longrightarrow>
      fst (snd (Cleanup requestData resp ctx)) = requestData)
   \<and> (case Cleanup requestData resp ctx of
        (resp1, requestData1, ctx1) \<Rightarrow>
          Cleanup requestData1 resp1 ctx1 = (resp1, requestData1, ctx1))"
  by (auto simp: Cleanup_def Let_def Header_Del_def)

text \<open>Session 1 is removed twice, and a session that was never there is removed.\<close>

theorem Cleanup_idempotent_witness:
  "Map.empty (Session ctx_1) = (None :: BaseRequest option)
   \<and> fst (snd (Cleanup Map.empty None ctx_1)) = Map.empty
   \<and> Cleanup rd_foo_bar None ctx_1 = (None, Map.empty, ctx_1)
   \<and> Cleanup Map.empty None ctx_1 = (None, Map.empty, ctx_1)"
proof -
  have a: "fst (snd (Cleanup Map.empty None ctx_1)) = Map.empty"
    using Cleanup_idempotent [of Map.empty ctx_1 None] by simp
  have b: "Cleanup rd_foo_bar None ctx_1 = (None, Map.empty, ctx_1)"
    by (simp add: Cleanup_def Let_def Header_Del_def rd_foo_bar_def ctx_1_def req_foo_bar_def)
  have c: "Cleanup Map.empty None ctx_1 = (None, Map.empty, ctx_1)"
    using Cleanup_idempotent [of rd_foo_bar ctx_1 None] unfolding b by simp
  from a b c show ?thesis by simp
qed

section \<open>The relevance decision\<close>


lemma Itoa_200: "Itoa 200 = ''200''"
  by code_simp

lemma no_html_behind_json:
  "Contains (''application/json'' @ ct) ''html'' = Contains ct ''html''"
  by (simp add: Contains_def HasPrefix_def)

lemma json_in_accept: "Contains (''application/json'' @ ct) ''json''"
  by (simp add: Contains_def HasPrefix_def)

lemma html_in_text_html: "Contains (acc @ ''text/html'') ''html''"
  by (rule Contains_append_right) (simp add: Contains_def HasPrefix_def)

text \<open>
  C3, amended.  For a context with an API resolved, no skip flag and no ignore header,
  and a \<open>GET\<close> request answered with status 200: with \<open>Content-Type: text/html\<close> the
  exchange is not capturable, provided the request has no \<open>X-Requested-With\<close> header and
  is not a dashboard request; with \<open>Accept: application/json\<close> it is capturable, provided
  the \<open>Content-Type\<close> of the response does not mention \<open>html\<close>.
\<close>

theorem isValidResponse_accept_get_200:
  assumes skip: "\<not> Skip br"
    and ign: "Header_Get (Header (HttpRequest br)) ''X-StopLight-Ignore'' \<noteq> ''true''"
    and api: "GetApi db br = Inr (a, br)" and tenant: "Id_api a \<noteq> []"
    and get: "Method (HttpRequest br) = ''GET''" and ok: "StatusCode rsp = 200"
  shows "(Header_Get (Header_resp rsp) ''Content-Type'' = ''text/html''
          \<and> Header_Get (Header (HttpRequest br)) ''X-Requested-With'' = []
          \<and> Header_Get (Header (HttpRequest br)) ''X-StopLight-Dashboard'' \<noteq> ''true''
          \<longrightarrow> isValidResponse_accept db (Some br) (Some rsp) = Inr (False, Some br, [Log []]))
       \<and> (Header_Get (Header (HttpRequest br)) ''Accept'' = ''application/json''
          \<and> \<not> Contains (Header_Get (Header_resp rsp) ''Content-Type'') ''html''
          \<longrightarrow> (\<exists>logs. isValidResponse_accept db (Some br) (Some rsp) =
                        Inr (True, Some br, logs)))"
proof (intro conjI impI)
  assume h: "Header_Get (Header_resp rsp) ''Content-Type'' = ''text/html''
          \<and> Header_Get (Header (HttpRequest br)) ''X-Requested-With'' = []
          \<and> Header_Get (Header (HttpRequest br)) ''X-StopLight-Dashboard'' \<noteq> ''true''"
  have "Contains (Header_Get (Header (HttpRequest br)) ''Accept'' @ ''text/html'') ''html''"
    by (rule html_in_text_html)
  with h skip ign api tenant get ok
  show "isValidResponse_accept db (Some br) (Some rsp) = Inr (False, Some br, [Log []])"
    by (simp add: isValidResponse_accept_def Let_def Itoa_200)
next
  assume h: "Header_Get (Header (HttpRequest br)) ''Accept'' = ''application/json''
          \<and> \<not> Contains (Header_Get (Header_resp rsp) ''Content-Type'') ''html''"
  let ?ct = "Header_Get (Header_resp rsp) ''Content-Type''"
  have j: "Contains (''application/json'' @ ?ct) ''json''" by (rule json_in_accept)
  have nh: "\<not> Contains (''application/json'' @ ?ct) ''html''"
    unfolding no_html_behind_json using h by blast
  have "isValidResponse_accept db (Some br) (Some rsp) =
          Inr (True, Some br, [Log (Header_Get (Header (HttpRequest br)) ''X-Requested-With'')])
        \<or> isValidResponse_accept db (Some br) (Some rsp) = Inr (True, Some br, [])"
    using skip ign api tenant get ok h j nh
    by (simp add: isValidResponse_accept_def Let_def Itoa_200 del: append.simps)
  then show "\<exists>logs. isValidResponse_accept db (Some br) (Some rsp) = Inr (True, Some br, logs)"
    by blast
qed

text \<open>The two cases of the table: a page load, and a request that accepts JSON and is
  answered without a content type.\<close>

theorem isValidResponse_accept_get_200_witness:
  "isValidResponse_accept db_running (Some br_foo_bar) (Some resp_html)
     = Inr (False, Some br_foo_bar, [Log []])
   \<and> isValidResponse_accept db_running (Some br_accept_json) (Some resp_untyped)
     = Inr (True, Some br_accept_json, [Log []])"
proof -
  have a: "isValidResponse_accept db_running (Some br_foo_bar) (Some resp_html)
     = Inr (False, Some br_foo_bar, [Log []])"
    using isValidResponse_accept_get_200 [OF _ _ GetApi_br_foo_bar, of resp_html]
    by (simp add: br_foo_bar_fields Header_Get_def resp_html_def)
  have "\<exists>logs. isValidResponse_accept db_running (Some br_accept_json) (Some resp_untyped)
     = Inr (True, Some br_accept_json, logs)"
    using isValidResponse_accept_get_200 [OF _ _ GetApi_br_accept_json, of resp_untyped]
    by (simp add: br_accept_json_fields Header_Get_def resp_untyped_def Contains_def)
  moreover have "snd (snd (projr (isValidResponse_accept db_running (Some br_accept_json)
      (Some resp_untyped)))) = [Log []]"
    unfolding isValidResponse_accept_def
    by (simp add: GetApi_br_accept_json Let_def Header_Get_def br_accept_json_fields)
  ultimately have "isValidResponse_accept db_running (Some br_accept_json) (Some resp_untyped)
     = Inr (True, Some br_accept_json, [Log []])" by auto
  with a show ?thesis by blast
qed

text \<open>
  C3, as the claim states it, fails twice.  Each context below has an API resolved, no
  skip flag and no ignore header, and each request is a \<open>GET\<close> answered with status 200
  and \<open>Content-Type: text/html\<close>.  The first request carries \<open>X-Requested-With\<close> and is
  capturable; the second carries \<open>Accept: application/json\<close> and is not.
\<close>

theorem isValidResponse_accept_table_fails:
  "GetApi db_running br_ajax = Inr (\<lparr>Id_api = ''a1''\<rparr>, br_ajax)
   \<and> \<not> Skip br_ajax
   \<and> Header_Get (Header (HttpRequest br_ajax)) ''X-StopLight-Ignore'' = []
   \<and> Method (HttpRequest br_ajax) = ''GET''
   \<and> StatusCode resp_html = 200
   \<and> Header_Get (Header_resp resp_html) ''Content-Type'' = ''text/html''
   \<and> isValidResponse_accept db_running (Some br_ajax) (Some resp_html)
       = Inr (True, Some br_ajax, [Log ''XMLHttpRequest''])
   \<and> GetApi db_running br_accept_json = Inr (\<lparr>Id_api = ''a1''\<rparr>, br_accept_json)
   \<and> \<not> Skip br_accept_json
   \<and> Header_Get (Header (HttpRequest br_accept_json)) ''X-StopLight-Ignore'' = []
   \<and> Method (HttpRequest br_accept_json) = ''GET''
   \<and> Header_Get (Header (HttpRequest br_accept_json)) ''Accept'' = ''application/json''
   \<and> isValidResponse_accept db_running (Some br_accept_json) (Some resp_html)
       = Inr (False, Some br_accept_json, [Log []])"
proof -
  have a: "isValidResponse_accept db_running (Some br_ajax) (Some resp_html)
     = Inr (True, Some br_ajax, [Log ''XMLHttpRequest''])"
    unfolding isValidResponse_accept_def
    by (simp add: GetApi_br_ajax Let_def Header_Get_def br_ajax_fields resp_html_def)
  have b: "isValidResponse_accept db_running (Some br_accept_json) (Some resp_html)
     = Inr (False, Some br_accept_json, [Log []])"
    unfolding isValidResponse_accept_def
    by (simp add: GetApi_br_accept_json Let_def Header_Get_def br_accept_json_fields Itoa_200
        Contains_def HasPrefix_def resp_html_def)
  have c: "Header_Get (Header (HttpRequest br_ajax)) ''X-StopLight-Ignore'' = []"
    "Header_Get (Header (HttpRequest br_accept_json)) ''X-StopLight-Ignore'' = []"
    "Header_Get (Header (HttpRequest br_accept_json)) ''Accept'' = ''application/json''"
    "StatusCode resp_html = 200"
    "Header_Get (Header_resp resp_html) ''Content-Type'' = ''text/html''"
    by (simp_all add: Header_Get_def br_ajax_fields br_accept_json_fields resp_html_def)
  from a b c GetApi_br_ajax GetApi_br_accept_json br_ajax_fields(1,2) br_accept_json_fields(1,2)
  show ?thesis by blast
qed

text \<open>
  The relevance decision of helpers.go itself does not read \<open>Accept\<close>: there a \<open>GET\<close>
  answered with status 200 is capturable by its content type, by the ajax header or by
  the \<open>X-StopLight-Api\<close> header alone.
\<close>

lemma isValidResponse_reads_no_Accept:
  "isValidResponse (req\<lparr>Header := (Header req)(''Accept'' := v)\<rparr>) resp = isValidResponse req resp"
  by (cases resp) (simp_all add: isValidResponse_def Header_Get_def Let_def)

lemma isValidResponse_get_200:
  assumes "Header_Get (Header req) ''X-StopLight-Ignore'' \<noteq> ''true''"
    and "Method req = ''GET''" and "StatusCode rsp = 200"
  shows "isValidResponse req (Some rsp) =
           (Header_Get (Header req) ''X-StopLight-Api'' \<noteq> []
            \<or> Header_Get (Header req) ''X-Requested-With'' \<noteq> []
            \<or> Contains (Header_Get (Header_resp rsp) ''Content-Type'') ''json''
            \<or> Contains (Header_Get (Header_resp rsp) ''Content-Type'') ''xml'')"
  using assms by (simp add: isValidResponse_def Let_def Itoa_200)

end
